theory Spec2Isabelle
  imports Main
begin

section \<open>CopyQueue: a clipboard queue driven by global hotkeys\<close>

text \<open>
  The program (\<^verbatim>\<open>src/CopyQueue.pyw\<close>) keeps four module-level globals and
  registers five hotkey callbacks that read and write them and talk to the
  operating system's clipboard through \<^verbatim>\<open>win32clipboard\<close>.  The embedding below
  keeps the globals in a record, the clipboard in a second record, and turns
  every callback into a function from the pair of both to an outcome together
  with the pair as it stands when the callback returns or raises.
\<close>

subsection \<open>Python values: exceptions, list indexing, \<^verbatim>\<open>list.pop(0)\<close>\<close>

datatype error = IndexError | ClipboardError | UnicodeEncodeError

text \<open>
  \<^verbatim>\<open>xs[i]\<close>: negative indices count from the end, anything out of range raises
  \<^verbatim>\<open>IndexError\<close>.
\<close>

definition py_index :: "'a list \<Rightarrow> int \<Rightarrow> error + 'a" where
  "py_index xs i =
     (if 0 \<le> i \<and> i < int (length xs) then Inr (xs ! nat i)
      else if i < 0 \<and> - int (length xs) \<le> i then Inr (xs ! nat (int (length xs) + i))
      else Inl IndexError)"

text \<open>\<^verbatim>\<open>xs.pop(0)\<close>: the removed head and the remaining list; raises on the empty list.\<close>

definition py_pop0 :: "'a list \<Rightarrow> error + ('a \<times> 'a list)" where
  "py_pop0 xs = (case xs of [] \<Rightarrow> Inl IndexError | x # rest \<Rightarrow> Inr (x, rest))"

subsection \<open>The globals (lines 5--8)\<close>

record state =
  CopyQueue :: "string list"
  Qcount :: int
  placeCount :: int
  QueueMode :: bool

definition init_state :: state where
  "init_state = \<lparr>CopyQueue = [], Qcount = 0, placeCount = 0, QueueMode = True\<rparr>"

subsection \<open>The clipboard service and the standard output\<close>

text \<open>
  \<^verbatim>\<open>win32clipboard\<close> is an external library.  Its calls used by the program
  are modelled on a record holding the text on the clipboard (\<open>None\<close> once
  emptied) and a schedule \<open>clip_fail\<close> that decides, call by call, whether the
  next call raises (\<open>True\<close>) or succeeds; an exhausted schedule means success.
  The schedule stands for everything the program cannot control (another
  process holding the clipboard), and it also counts the calls: a callback that
  leaves it untouched has made no clipboard call at all.

  The same record says which texts the standard output can encode
  (\<open>stdout_encodes\<close>): \<^verbatim>\<open>print\<close> raises \<^verbatim>\<open>UnicodeEncodeError\<close> on any other text.
  Where there is no standard output at all, every text counts as encodable.
\<close>

record world =
  clip_data :: "string option"
  clip_fail :: "bool list"
  stdout_encodes :: "string \<Rightarrow> bool"

definition next_call :: "world \<Rightarrow> bool \<times> world" where
  "next_call c =
     (case clip_fail c of [] \<Rightarrow> (False, c) | b # bs \<Rightarrow> (b, c\<lparr>clip_fail := bs\<rparr>))"

definition OpenClipboard :: "world \<Rightarrow> (error + unit) \<times> world" where
  "OpenClipboard c =
     (case next_call c of (fails, c') \<Rightarrow>
        if fails then (Inl ClipboardError, c') else (Inr (), c'))"

definition CloseClipboard :: "world \<Rightarrow> (error + unit) \<times> world" where
  "CloseClipboard c =
     (case next_call c of (fails, c') \<Rightarrow>
        if fails then (Inl ClipboardError, c') else (Inr (), c'))"

definition EmptyClipboard :: "world \<Rightarrow> (error + unit) \<times> world" where
  "EmptyClipboard c =
     (case next_call c of (fails, c') \<Rightarrow>
        if fails then (Inl ClipboardError, c') else (Inr (), c'\<lparr>clip_data := None\<rparr>))"

definition SetClipboardText :: "string \<Rightarrow> world \<Rightarrow> (error + unit) \<times> world" where
  "SetClipboardText t c =
     (case next_call c of (fails, c') \<Rightarrow>
        if fails then (Inl ClipboardError, c') else (Inr (), c'\<lparr>clip_data := Some t\<rparr>))"

text \<open>Reading an emptied clipboard raises as well (the text format is not available).\<close>

definition GetClipboardData :: "world \<Rightarrow> (error + string) \<times> world" where
  "GetClipboardData c =
     (case next_call c of (fails, c') \<Rightarrow>
        if fails then (Inl ClipboardError, c')
        else (case clip_data c' of None \<Rightarrow> (Inl ClipboardError, c') | Some d \<Rightarrow> (Inr d, c')))"

subsection \<open>Statements in sequence, with exceptions\<close>

text \<open>
  A piece of Python is a function from the globals and the clipboard to its
  result (\<open>Inl\<close>: the exception it raised) and both as they are at that
  moment.  \<open>andThen\<close> is the semicolon: a raise skips the rest and keeps every
  effect made so far.
\<close>

type_synonym 'a prog = "state \<times> world \<Rightarrow> (error + 'a) \<times> state \<times> world"

definition ret :: "'a \<Rightarrow> 'a prog" where
  "ret x = (\<lambda>\<sigma>. (Inr x, \<sigma>))"

definition andThen :: "'a prog \<Rightarrow> ('a \<Rightarrow> 'b prog) \<Rightarrow> 'b prog" where
  "andThen m k =
     (\<lambda>\<sigma>. case m \<sigma> of (Inl e, \<sigma>') \<Rightarrow> (Inl e, \<sigma>') | (Inr a, \<sigma>') \<Rightarrow> k a \<sigma>')"

definition gets :: "(state \<Rightarrow> 'a) \<Rightarrow> 'a prog" where
  "gets f = (\<lambda>(s, c). (Inr (f s), s, c))"

definition modify :: "(state \<Rightarrow> state) \<Rightarrow> unit prog" where
  "modify g = (\<lambda>(s, c). (Inr (), g s, c))"

definition clip :: "(world \<Rightarrow> (error + 'a) \<times> world) \<Rightarrow> 'a prog" where
  "clip f = (\<lambda>(s, c). case f c of (r, c') \<Rightarrow> (r, s, c'))"

text \<open>
  \<^verbatim>\<open>print\<close> of a queued text.  The literal strings and the integers printed
  along with it are ASCII, which every encoding of the standard output takes,
  so only the queued text decides whether the call raises.
\<close>

definition print_text :: "string \<Rightarrow> unit prog" where
  "print_text t =
     (\<lambda>(s, w). if stdout_encodes w t then (Inr (), s, w) else (Inl UnicodeEncodeError, s, w))"

text \<open>\<^verbatim>\<open>CopyQueue[i]\<close> and \<^verbatim>\<open>CopyQueue.pop(0)\<close> on the global list.\<close>

definition index_queue :: "int \<Rightarrow> string prog" where
  "index_queue i = (\<lambda>(s, c). (py_index (CopyQueue s) i, s, c))"

definition pop_queue :: "string prog" where
  "pop_queue =
     (\<lambda>(s, c). case py_pop0 (CopyQueue s) of
        Inl e \<Rightarrow> (Inl e, s, c)
      | Inr (x, rest) \<Rightarrow> (Inr x, s\<lparr>CopyQueue := rest\<rparr>, c))"

subsection \<open>The counters and the mode flag (lines 11--41)\<close>

definition fToggleQueueMode :: "bool prog" where
  "fToggleQueueMode =
     andThen (gets QueueMode) (\<lambda>q.
     andThen (if q then modify (\<lambda>s. s\<lparr>QueueMode := False\<rparr>)
              else modify (\<lambda>s. s\<lparr>QueueMode := True\<rparr>)) (\<lambda>_.
     gets QueueMode))"

definition fAddCounter :: "int prog" where
  "fAddCounter =
     andThen (modify (\<lambda>s. s\<lparr>Qcount := Qcount s + 1\<rparr>)) (\<lambda>_. gets Qcount)"

definition fPlaceCountAddCounter :: "int prog" where
  "fPlaceCountAddCounter =
     andThen (modify (\<lambda>s. s\<lparr>placeCount := placeCount s + 1\<rparr>)) (\<lambda>_. gets placeCount)"

definition fPlaceCountSubtractCounter :: "int prog" where
  "fPlaceCountSubtractCounter =
     andThen (modify (\<lambda>s. s\<lparr>placeCount := placeCount s - 1\<rparr>)) (\<lambda>_. gets placeCount)"

definition fSubtractCounter :: "int prog" where
  "fSubtractCounter =
     andThen (modify (\<lambda>s. s\<lparr>Qcount := Qcount s - 1\<rparr>)) (\<lambda>_. gets Qcount)"

subsection \<open>The five callbacks (lines 44--98)\<close>

text \<open>
  \<^verbatim>\<open>time.sleep\<close> has no effect on the globals or the clipboard and is left
  out, and so is a \<^verbatim>\<open>print\<close> of literals and integers only (lines 45, 67, 73,
  79, 81, 91).  The three calls of \<^verbatim>\<open>print\<close> that output a queued text (lines
  53, 59, 69) are kept: the index expression among their arguments can raise,
  and so can the output itself.
\<close>

definition fEnqueueCopyQueue :: "unit prog" where
  "fEnqueueCopyQueue =
     andThen (gets QueueMode) (\<lambda>mode.
     if mode then
       andThen (clip OpenClipboard) (\<lambda>_.
       andThen (clip GetClipboardData) (\<lambda>data.
       andThen (clip CloseClipboard) (\<lambda>_.
       andThen (modify (\<lambda>s. s\<lparr>CopyQueue := CopyQueue s @ [data]\<rparr>)) (\<lambda>_.
       andThen fAddCounter (\<lambda>_.
       andThen (gets (\<lambda>s. int (length (CopyQueue s)) - 1)) (\<lambda>n.
       andThen (index_queue n) (\<lambda>newest.
       print_text newest)))))))
     else ret ())"

definition fDequeueCopyQueue :: "unit prog" where
  "fDequeueCopyQueue =
     andThen (gets QueueMode) (\<lambda>mode.
     if mode then
       andThen (gets Qcount) (\<lambda>q.
       if q > 0 then
         andThen (index_queue 0) (\<lambda>oldest.
         andThen (print_text oldest) (\<lambda>_.
         andThen (clip OpenClipboard) (\<lambda>_.
         andThen (clip EmptyClipboard) (\<lambda>_.
         andThen (index_queue 0) (\<lambda>head.
         andThen (clip (SetClipboardText head)) (\<lambda>_.
         andThen (clip CloseClipboard) (\<lambda>_.
         andThen pop_queue (\<lambda>_.
         andThen fSubtractCounter (\<lambda>_.
         andThen (gets CopyQueue) (\<lambda>q'.
         if q' = [] then ret ()
         else
           andThen (gets (\<lambda>s. int (length (CopyQueue s)) - 1)) (\<lambda>n.
           andThen (index_queue n) (\<lambda>newest.
           print_text newest))))))))))))
       else ret ())
     else ret ())"

definition fPauseProg :: "unit prog" where
  "fPauseProg = andThen fToggleQueueMode (\<lambda>_. ret ())"

definition fNextInQueue :: "unit prog" where
  "fNextInQueue =
     andThen (gets (\<lambda>s. Qcount s > 0 \<and> placeCount s < int (length (CopyQueue s)) - 1)) (\<lambda>go.
     if go then
       andThen fPlaceCountAddCounter (\<lambda>_.
       andThen (clip OpenClipboard) (\<lambda>_.
       andThen (clip EmptyClipboard) (\<lambda>_.
       andThen (gets placeCount) (\<lambda>p.
       andThen (index_queue p) (\<lambda>item.
       andThen (clip (SetClipboardText item)) (\<lambda>_.
       andThen (clip CloseClipboard) (\<lambda>_.
       ret ())))))))
     else ret ())"

definition fPrevInQueue :: "unit prog" where
  "fPrevInQueue =
     andThen (gets (\<lambda>s. Qcount s > 0 \<and> placeCount s > 0)) (\<lambda>go.
     if go then
       andThen fPlaceCountSubtractCounter (\<lambda>_.
       andThen (clip OpenClipboard) (\<lambda>_.
       andThen (clip EmptyClipboard) (\<lambda>_.
       andThen (gets placeCount) (\<lambda>p.
       andThen (index_queue p) (\<lambda>item.
       andThen (clip (SetClipboardText item)) (\<lambda>_.
       andThen (clip CloseClipboard) (\<lambda>_.
       ret ())))))))
     else ret ())"

subsection \<open>Hotkey dispatch (lines 101--107)\<close>

datatype hotkey = CtrlC | CtrlV | CtrlB | CtrlRight | CtrlLeft

fun initProgram :: "hotkey \<Rightarrow> unit prog" where
  "initProgram CtrlC = fEnqueueCopyQueue"
| "initProgram CtrlV = fDequeueCopyQueue"
| "initProgram CtrlB = fPauseProg"
| "initProgram CtrlRight = fNextInQueue"
| "initProgram CtrlLeft = fPrevInQueue"

text \<open>
  A run of the program: hotkeys pressed one after the other, and, in between,
  the rest of the system putting a text on the clipboard (the copy that the
  same keystroke triggers in the focused application, for one).  The run goes
  on after a callback has raised, which only adds states.
\<close>

datatype event = Press hotkey | Clipboard_set string

fun exec :: "event list \<Rightarrow> state \<times> world \<Rightarrow> state \<times> world" where
  "exec [] \<sigma> = \<sigma>"
| "exec (Press k # es) \<sigma> = exec es (snd (initProgram k \<sigma>))"
| "exec (Clipboard_set t # es) (s, c) = exec es (s, c\<lparr>clip_data := Some t\<rparr>)"

text \<open>
  Reachable globals: from the initial ones by any number of callbacks, each
  started on an arbitrary clipboard (contents and failures are not under the
  program's control).
\<close>

inductive reachable :: "state \<Rightarrow> bool" where
  reachable_init: "reachable init_state"
| reachable_step: "reachable s \<Longrightarrow> initProgram k (s, c) = (r, s', c') \<Longrightarrow> reachable s'"

subsection \<open>Test data\<close>

text \<open>A clipboard on which no scheduled call fails.\<close>

definition healthy :: "world \<Rightarrow> bool" where
  "healthy c = (True \<notin> set (clip_fail c))"

text \<open>
  Copying the texts \<open>xs\<close> one after the other: each text is put on the
  clipboard by the focused application, then the copy hotkey's callback runs.
\<close>

fun copies :: "string list \<Rightarrow> event list" where
  "copies [] = []"
| "copies (x # xs) = Clipboard_set x # Press CtrlC # copies xs"

text \<open>The globals of scenario B, and those of scenario D.\<close>

definition scenario_B :: "bool \<Rightarrow> state" where
  "scenario_B mode =
     \<lparr>CopyQueue = [''a'', ''b'', ''c''], Qcount = 3, placeCount = 0, QueueMode = mode\<rparr>"

definition scenario_D :: "bool \<Rightarrow> state" where
  "scenario_D mode = \<lparr>CopyQueue = [''x''], Qcount = 1, placeCount = 0, QueueMode = mode\<rparr>"

text \<open>
  Three texts copied, the cursor moved to the last one, two of them pasted:
  the run that leaves the cursor behind the end of the list.
\<close>

definition stale_cursor_run :: "event list" where
  "stale_cursor_run =
     copies [''a'', ''b'', ''c''] @ [Press CtrlRight, Press CtrlRight, Press CtrlV, Press CtrlV]"






definition idle_clipboard :: world where
  "idle_clipboard = \<lparr>clip_data = None, clip_fail = [], stdout_encodes = (\<lambda>t. True)\<rparr>"

text \<open>
  Further globals and clipboards used as concrete inputs: a paused program
  holding two texts, a running one holding a single text, and a clipboard whose
  third call from now on fails (the write, in a callback that opens, empties and
  then writes).
\<close>

definition paused_example :: state where
  "paused_example = \<lparr>CopyQueue = [''a'', ''b''], Qcount = 2, placeCount = 0, QueueMode = False\<rparr>"

definition one_copied :: state where
  "one_copied = \<lparr>CopyQueue = [''hello''], Qcount = 1, placeCount = 0, QueueMode = True\<rparr>"

definition write_fails :: world where
  "write_fails = \<lparr>clip_data = Some ''other'', clip_fail = [False, False, True], stdout_encodes = (\<lambda>t. True)\<rparr>"

section \<open>Basic facts\<close>

subsection \<open>Running the primitives\<close>

lemma ret_apply: "ret x \<sigma> = (Inr x, \<sigma>)"
  by (simp add: ret_def)

lemma gets_apply: "gets f (s, c) = (Inr (f s), s, c)"
  by (simp add: gets_def)

lemma modify_apply: "modify g (s, c) = (Inr (), g s, c)"
  by (simp add: modify_def)

lemma clip_apply: "clip f (s, c) = (fst (f c), s, snd (f c))"
  by (simp add: clip_def split: prod.splits)

lemma index_queue_apply: "index_queue i (s, c) = (py_index (CopyQueue s) i, s, c)"
  by (simp add: index_queue_def)

lemma pop_queue_apply:
  "pop_queue (s, c) =
     (case CopyQueue s of [] \<Rightarrow> (Inl IndexError, s, c)
      | x # rest \<Rightarrow> (Inr x, s\<lparr>CopyQueue := rest\<rparr>, c))"
  by (simp add: pop_queue_def py_pop0_def split: list.splits)

lemma andThen_apply:
  "andThen m k \<sigma> =
     (case m \<sigma> of (Inl e, \<sigma>') \<Rightarrow> (Inl e, \<sigma>') | (Inr a, \<sigma>') \<Rightarrow> k a \<sigma>')"
  by (simp add: andThen_def)

lemma print_text_apply:
  "print_text t (s, w) =
     (if stdout_encodes w t then Inr () else Inl UnicodeEncodeError, s, w)"
  by (simp add: print_text_def)

lemmas prog_apply =
  ret_apply gets_apply modify_apply clip_apply index_queue_apply pop_queue_apply andThen_apply
  print_text_apply

lemma fAddCounter_apply:
  "fAddCounter (s, c) = (Inr (Qcount s + 1), s\<lparr>Qcount := Qcount s + 1\<rparr>, c)"
  by (simp add: fAddCounter_def prog_apply)

lemma fSubtractCounter_apply:
  "fSubtractCounter (s, c) = (Inr (Qcount s - 1), s\<lparr>Qcount := Qcount s - 1\<rparr>, c)"
  by (simp add: fSubtractCounter_def prog_apply)

lemma fPlaceCountAddCounter_apply:
  "fPlaceCountAddCounter (s, c) =
     (Inr (placeCount s + 1), s\<lparr>placeCount := placeCount s + 1\<rparr>, c)"
  by (simp add: fPlaceCountAddCounter_def prog_apply)

lemma fPlaceCountSubtractCounter_apply:
  "fPlaceCountSubtractCounter (s, c) =
     (Inr (placeCount s - 1), s\<lparr>placeCount := placeCount s - 1\<rparr>, c)"
  by (simp add: fPlaceCountSubtractCounter_def prog_apply)

lemma fToggleQueueMode_apply:
  "fToggleQueueMode (s, c) = (Inr (\<not> QueueMode s), s\<lparr>QueueMode := \<not> QueueMode s\<rparr>, c)"
  by (simp add: fToggleQueueMode_def prog_apply)

lemmas counter_apply =
  fAddCounter_apply fSubtractCounter_apply fPlaceCountAddCounter_apply
  fPlaceCountSubtractCounter_apply fToggleQueueMode_apply

subsection \<open>Indexing\<close>

lemma py_index_Nil: "py_index [] i = Inl IndexError"
  by (simp add: py_index_def)

lemma py_index_0: "py_index (x # xs) 0 = Inr x"
  by (simp add: py_index_def)

lemma py_index_snoc: "py_index (xs @ [x]) (int (length xs)) = Inr x"
  by (simp add: py_index_def)

lemma py_index_last: "xs \<noteq> [] \<Longrightarrow> py_index xs (int (length xs) - 1) = Inr (last xs)"
  by (cases xs rule: rev_cases) (simp_all add: py_index_def)

lemma py_index_in_range:
  "0 \<le> i \<Longrightarrow> i < int (length xs) \<Longrightarrow> py_index xs i = Inr (xs ! nat i)"
  by (simp add: py_index_def)

lemma py_index_beyond: "int (length xs) \<le> i \<Longrightarrow> py_index xs i = Inl IndexError"
  by (simp add: py_index_def)

lemmas py_index_simps = py_index_Nil py_index_0 py_index_snoc py_index_last

subsection \<open>The clipboard calls on a healthy clipboard\<close>

lemmas clip_defs =
  next_call_def OpenClipboard_def CloseClipboard_def EmptyClipboard_def
  SetClipboardText_def GetClipboardData_def

lemma next_call_healthy:
  "healthy c \<Longrightarrow> next_call c = (False, c\<lparr>clip_fail := tl (clip_fail c)\<rparr>)"
  by (cases "clip_fail c") (auto simp: next_call_def healthy_def)

lemma no_failure_tl: "True \<notin> set fs \<Longrightarrow> True \<notin> set (tl fs)"
  by (cases fs) auto

lemma healthy_schedule: "healthy (c\<lparr>clip_fail := fs\<rparr>) = (True \<notin> set fs)"
  by (simp add: healthy_def)

lemma healthy_tl: "healthy c \<Longrightarrow> healthy (c\<lparr>clip_fail := tl (clip_fail c)\<rparr>)"
  by (simp add: healthy_def no_failure_tl)

lemma healthy_data: "healthy (c\<lparr>clip_data := d\<rparr>) = healthy c"
  by (simp add: healthy_def)

lemma OpenClipboard_healthy:
  "healthy c \<Longrightarrow> OpenClipboard c = (Inr (), c\<lparr>clip_fail := tl (clip_fail c)\<rparr>)"
  by (simp add: OpenClipboard_def next_call_healthy)

lemma CloseClipboard_healthy:
  "healthy c \<Longrightarrow> CloseClipboard c = (Inr (), c\<lparr>clip_fail := tl (clip_fail c)\<rparr>)"
  by (simp add: CloseClipboard_def next_call_healthy)

lemma EmptyClipboard_healthy:
  "healthy c \<Longrightarrow>
     EmptyClipboard c = (Inr (), c\<lparr>clip_fail := tl (clip_fail c), clip_data := None\<rparr>)"
  by (simp add: EmptyClipboard_def next_call_healthy)

lemma SetClipboardText_healthy:
  "healthy c \<Longrightarrow>
     SetClipboardText t c = (Inr (), c\<lparr>clip_fail := tl (clip_fail c), clip_data := Some t\<rparr>)"
  by (simp add: SetClipboardText_def next_call_healthy)

lemma GetClipboardData_healthy:
  "healthy c \<Longrightarrow> clip_data c = Some d \<Longrightarrow>
     GetClipboardData c = (Inr d, c\<lparr>clip_fail := tl (clip_fail c)\<rparr>)"
  by (simp add: GetClipboardData_def next_call_healthy)

lemmas healthy_calls =
  OpenClipboard_healthy CloseClipboard_healthy EmptyClipboard_healthy
  SetClipboardText_healthy GetClipboardData_healthy healthy_schedule healthy_data no_failure_tl

text \<open>What a write leaves on the clipboard, whatever fails or not.\<close>

lemma SetClipboardText_done:
  "fst (SetClipboardText t c) = Inr u \<Longrightarrow> clip_data (snd (SetClipboardText t c)) = Some t"
  by (simp add: SetClipboardText_def split: prod.splits if_splits)

lemma CloseClipboard_data: "clip_data (snd (CloseClipboard c)) = clip_data c"
  by (simp add: CloseClipboard_def next_call_def split: list.splits)

subsection \<open>What each callback does to the globals\<close>

lemma fNextInQueue_state:
  "fst (snd (fNextInQueue (s, c))) =
     (if Qcount s > 0 \<and> placeCount s < int (length (CopyQueue s)) - 1
      then s\<lparr>placeCount := placeCount s + 1\<rparr> else s)"
  by (simp add: fNextInQueue_def prog_apply counter_apply split: sum.splits)

lemma fPrevInQueue_state:
  "fst (snd (fPrevInQueue (s, c))) =
     (if Qcount s > 0 \<and> placeCount s > 0 then s\<lparr>placeCount := placeCount s - 1\<rparr> else s)"
  by (simp add: fPrevInQueue_def prog_apply counter_apply split: sum.splits)

lemma fNextInQueue_idle:
  "\<not> (Qcount s > 0 \<and> placeCount s < int (length (CopyQueue s)) - 1) \<Longrightarrow>
     fNextInQueue (s, c) = (Inr (), s, c)"
  by (auto simp: fNextInQueue_def prog_apply)

lemma fPrevInQueue_idle:
  "\<not> (Qcount s > 0 \<and> placeCount s > 0) \<Longrightarrow> fPrevInQueue (s, c) = (Inr (), s, c)"
  by (auto simp: fPrevInQueue_def prog_apply)

lemma fPauseProg_apply: "fPauseProg (s, c) = (Inr (), s\<lparr>QueueMode := \<not> QueueMode s\<rparr>, c)"
  by (simp add: fPauseProg_def prog_apply counter_apply)

lemma fDequeueCopyQueue_state:
  "fDequeueCopyQueue (s, c) = (r, s', c') \<Longrightarrow>
     s' = s \<or>
     (s' = s\<lparr>CopyQueue := tl (CopyQueue s), Qcount := Qcount s - 1\<rparr> \<and>
      (r = Inr () \<or> r = Inl UnicodeEncodeError) \<and>
      CopyQueue s \<noteq> [] \<and> QueueMode s \<and> Qcount s > 0 \<and>
      clip_data c' = Some (hd (CopyQueue s)))"
  by (auto simp: fDequeueCopyQueue_def prog_apply counter_apply py_index_simps
        SetClipboardText_done CloseClipboard_data
      split: if_splits sum.splits list.splits)

lemma fEnqueueCopyQueue_state:
  "fEnqueueCopyQueue (s, c) = (r, s', c') \<Longrightarrow>
     s' = s \<or>
     (\<exists>d. s' = s\<lparr>CopyQueue := CopyQueue s @ [d], Qcount := Qcount s + 1\<rparr> \<and>
          (r = Inr () \<or> r = Inl UnicodeEncodeError) \<and> QueueMode s)"
  by (auto simp: fEnqueueCopyQueue_def prog_apply counter_apply py_index_simps
      split: if_splits sum.splits)

lemma fEnqueueCopyQueue_paused: "\<not> QueueMode s \<Longrightarrow> fEnqueueCopyQueue (s, c) = (Inr (), s, c)"
  by (simp add: fEnqueueCopyQueue_def prog_apply)

lemma fDequeueCopyQueue_paused: "\<not> QueueMode s \<Longrightarrow> fDequeueCopyQueue (s, c) = (Inr (), s, c)"
  by (simp add: fDequeueCopyQueue_def prog_apply)

lemma fDequeueCopyQueue_guarded: "Qcount s \<le> 0 \<Longrightarrow> fDequeueCopyQueue (s, c) = (Inr (), s, c)"
  by (simp add: fDequeueCopyQueue_def prog_apply)

lemma fEnqueueCopyQueue_healthy:
  "QueueMode s \<Longrightarrow> healthy c \<Longrightarrow> clip_data c = Some d \<Longrightarrow>
     fEnqueueCopyQueue (s, c) =
       (if stdout_encodes c d then Inr () else Inl UnicodeEncodeError,
        s\<lparr>CopyQueue := CopyQueue s @ [d], Qcount := Qcount s + 1\<rparr>,
        c\<lparr>clip_fail := tl (tl (tl (clip_fail c)))\<rparr>)"
  by (simp add: fEnqueueCopyQueue_def prog_apply counter_apply py_index_simps healthy_calls healthy_def)

lemma fDequeueCopyQueue_healthy:
  "QueueMode s \<Longrightarrow> Qcount s > 0 \<Longrightarrow> CopyQueue s = x # rest \<Longrightarrow> healthy c \<Longrightarrow>
   stdout_encodes c x \<Longrightarrow>
     fDequeueCopyQueue (s, c) =
       (if rest = [] \<or> stdout_encodes c (last rest) then Inr () else Inl UnicodeEncodeError,
        s\<lparr>CopyQueue := rest, Qcount := Qcount s - 1\<rparr>,
        c\<lparr>clip_fail := tl (tl (tl (tl (clip_fail c)))), clip_data := Some x\<rparr>)"
  by (simp add: fDequeueCopyQueue_def prog_apply counter_apply py_index_simps healthy_calls healthy_def)


lemma fNextInQueue_healthy:
  "Qcount s > 0 \<Longrightarrow> placeCount s < int (length (CopyQueue s)) - 1 \<Longrightarrow> 0 \<le> placeCount s \<Longrightarrow>
   healthy c \<Longrightarrow>
     fNextInQueue (s, c) =
       (Inr (), s\<lparr>placeCount := placeCount s + 1\<rparr>,
        c\<lparr>clip_fail := tl (tl (tl (tl (clip_fail c)))),
          clip_data := Some (CopyQueue s ! nat (placeCount s + 1))\<rparr>)"
  by (simp add: fNextInQueue_def prog_apply counter_apply py_index_in_range healthy_calls healthy_def)

subsection \<open>Invariants of the reachable globals\<close>

lemma initProgram_counter:
  assumes "Qcount s = int (length (CopyQueue s))"
  shows "Qcount (fst (snd (initProgram k (s, c)))) =
         int (length (CopyQueue (fst (snd (initProgram k (s, c))))))"
proof (cases k)
  case CtrlC
  obtain r s' c' where run: "fEnqueueCopyQueue (s, c) = (r, s', c')"
    by (cases "fEnqueueCopyQueue (s, c)") auto
  from fEnqueueCopyQueue_state [OF run] assms show ?thesis
    by (auto simp: CtrlC run)
next
  case CtrlV
  obtain r s' c' where run: "fDequeueCopyQueue (s, c) = (r, s', c')"
    by (cases "fDequeueCopyQueue (s, c)") auto
  from fDequeueCopyQueue_state [OF run] assms show ?thesis
    by (cases "CopyQueue s") (auto simp: CtrlV run)
next
  case CtrlB
  with assms show ?thesis by (simp add: fPauseProg_apply)
next
  case CtrlRight
  with assms show ?thesis by (simp add: fNextInQueue_state)
next
  case CtrlLeft
  with assms show ?thesis by (simp add: fPrevInQueue_state)
qed

lemma reachable_counter: "reachable s \<Longrightarrow> Qcount s = int (length (CopyQueue s))"
proof (induction rule: reachable.induct)
  case reachable_init
  show ?case by (simp add: init_state_def)
next
  case (reachable_step s k c r s' c')
  from initProgram_counter [OF reachable_step.IH, of k c] reachable_step.hyps(2)
  show ?case by simp
qed

lemma initProgram_cursor_lower:
  assumes "0 \<le> placeCount s"
  shows "0 \<le> placeCount (fst (snd (initProgram k (s, c))))"
proof (cases k)
  case CtrlC
  obtain r s' c' where run: "fEnqueueCopyQueue (s, c) = (r, s', c')"
    by (cases "fEnqueueCopyQueue (s, c)") auto
  from fEnqueueCopyQueue_state [OF run] assms show ?thesis
    by (auto simp: CtrlC run)
next
  case CtrlV
  obtain r s' c' where run: "fDequeueCopyQueue (s, c) = (r, s', c')"
    by (cases "fDequeueCopyQueue (s, c)") auto
  from fDequeueCopyQueue_state [OF run] assms show ?thesis
    by (auto simp: CtrlV run)
next
  case CtrlB
  with assms show ?thesis by (simp add: fPauseProg_apply)
next
  case CtrlRight
  with assms show ?thesis by (simp add: fNextInQueue_state)
next
  case CtrlLeft
  with assms show ?thesis by (simp add: fPrevInQueue_state)
qed

lemma reachable_cursor_lower: "reachable s \<Longrightarrow> 0 \<le> placeCount s"
proof (induction rule: reachable.induct)
  case reachable_init
  show ?case by (simp add: init_state_def)
next
  case (reachable_step s k c r s' c')
  from initProgram_cursor_lower [OF reachable_step.IH, of k c] reachable_step.hyps(2)
  show ?case by simp
qed

lemma reachable_exec: "reachable (fst \<sigma>) \<Longrightarrow> reachable (fst (exec es \<sigma>))"
proof (induction es \<sigma> rule: exec.induct)
  case (1 \<sigma>)
  then show ?case by simp
next
  case (2 k es \<sigma>)
  have "reachable (fst (snd (initProgram k \<sigma>)))"
    using "2.prems" reachable_step [of "fst \<sigma>" k "snd \<sigma>"]
    by (cases "initProgram k \<sigma>") auto
  with "2.IH" show ?case by simp
next
  case (3 t es s c)
  then show ?case by simp
qed

subsection \<open>Runs\<close>

lemma exec_copies:
  "QueueMode s \<Longrightarrow> healthy c \<Longrightarrow>
     fst (exec (copies xs) (s, c)) =
       s\<lparr>CopyQueue := CopyQueue s @ xs, Qcount := Qcount s + int (length xs)\<rparr> \<and>
     healthy (snd (exec (copies xs) (s, c)))"
proof (induction xs arbitrary: s c)
  case Nil
  then show ?case by simp
next
  case (Cons x xs)
  let ?c = "c\<lparr>clip_data := Some x\<rparr>"
  let ?s1 = "s\<lparr>CopyQueue := CopyQueue s @ [x], Qcount := Qcount s + 1\<rparr>"
  let ?c1 = "?c\<lparr>clip_fail := tl (tl (tl (clip_fail ?c)))\<rparr>"
  have hc: "healthy ?c" using Cons.prems by (simp add: healthy_data)
  have run: "snd (fEnqueueCopyQueue (s, ?c)) = (?s1, ?c1)"
    using fEnqueueCopyQueue_healthy [OF Cons.prems(1) hc, of x] by simp
  have h1: "healthy ?c1" using Cons.prems(2) by (simp add: healthy_def no_failure_tl)
  have q1: "QueueMode ?s1" using Cons.prems(1) by simp
  from Cons.IH [OF q1 h1] show ?case by (simp add: run)
qed

lemma stale_cursor_run_result:
  "exec stale_cursor_run (init_state, idle_clipboard) =
     (\<lparr>CopyQueue = [''c''], Qcount = 1, placeCount = 2, QueueMode = True\<rparr>,
      \<lparr>clip_data = Some ''b'', clip_fail = [], stdout_encodes = (\<lambda>t. True)\<rparr>)"
  by (simp add: stale_cursor_run_def init_state_def idle_clipboard_def healthy_def
      fEnqueueCopyQueue_healthy fDequeueCopyQueue_healthy fNextInQueue_healthy)

lemma head_kept:
  assumes "CopyQueue s \<noteq> []" and "initProgram k (s, c) = (r, s', c')"
  shows "(CopyQueue s' \<noteq> [] \<and> hd (CopyQueue s') = hd (CopyQueue s)) \<or>
         (k = CtrlV \<and> CopyQueue s' = tl (CopyQueue s))"
proof (cases k)
  case CtrlC
  with assms(2) have "fEnqueueCopyQueue (s, c) = (r, s', c')" by simp
  from fEnqueueCopyQueue_state [OF this] assms(1) show ?thesis by auto
next
  case CtrlV
  with assms(2) have "fDequeueCopyQueue (s, c) = (r, s', c')" by simp
  from fDequeueCopyQueue_state [OF this] assms(1) CtrlV show ?thesis by auto
next
  case CtrlB
  with assms show ?thesis by (auto simp: fPauseProg_apply)
next
  case CtrlRight
  with assms(2) have "s' = fst (snd (fNextInQueue (s, c)))" by simp
  with assms(1) show ?thesis by (simp add: fNextInQueue_state)
next
  case CtrlLeft
  with assms(2) have "s' = fst (snd (fPrevInQueue (s, c)))" by simp
  with assms(1) show ?thesis by (simp add: fPrevInQueue_state)
qed

subsection \<open>Where the cursor stays in range\<close>


lemma next_index_valid:
  assumes "reachable s" and "Qcount s > 0" and "placeCount s < int (length (CopyQueue s)) - 1"
  shows "py_index (CopyQueue s) (placeCount s + 1) = Inr (CopyQueue s ! nat (placeCount s + 1))"
proof -
  from assms(1) have "0 \<le> placeCount s" by (rule reachable_cursor_lower)
  with assms(3) show ?thesis by (simp add: py_index_in_range)
qed



lemma stale_cursor_reachable:
  "reachable (fst (exec stale_cursor_run (init_state, idle_clipboard)))"
  using reachable_exec [of "(init_state, idle_clipboard)" stale_cursor_run]
  by (simp add: reachable_init)



section \<open>The claims\<close>




text \<open>
  Claim C2 (no callback raises on an index).  The claim: whenever the guard of
  \<open>fPrevInQueue\<close> or \<open>fNextInQueue\<close> passes, the cursor after the move is a
  valid index.  For the forward move this holds in every reachable state
  (\<open>next_index_valid\<close>).  The backward move only checks \<open>placeCount > 0\<close>:
  started in the reachable state that \<open>stale_cursor_run\<close> ends in, it
  decrements the cursor to \<open>1\<close>, empties the clipboard and raises
  \<open>IndexError\<close> on \<open>CopyQueue[1]\<close>, the list having one element.
\<close>

theorem C2_prev_raises_IndexError:
  "reachable (fst (exec stale_cursor_run (init_state, idle_clipboard))) \<and>
   fPrevInQueue (exec stale_cursor_run (init_state, idle_clipboard)) =
     (Inl IndexError,
      \<lparr>CopyQueue = [''c''], Qcount = 1, placeCount = 1, QueueMode = True\<rparr>,
      \<lparr>clip_data = None, clip_fail = [], stdout_encodes = (\<lambda>t. True)\<rparr>)"
  using stale_cursor_reachable
  by (simp add: stale_cursor_run_result fPrevInQueue_def prog_apply counter_apply
      clip_defs py_index_def)

text \<open>
  Claim C3 (the counter is the length).  In every reachable state \<open>Qcount\<close> equals
  the length of \<open>CopyQueue\<close>; each of the five callbacks preserves the equality,
  whatever the clipboard does and also when the callback raises; after copying
  the texts \<open>xs\<close> from the initial state on a clipboard that does not fail the
  queue is \<open>xs\<close> in that order and the counter is their number; and the head
  of a non-empty queue stays at index \<open>0\<close> through every callback, the one
  exception being a paste, which removes it.
\<close>

theorem C3_counter_in_sync:
  "(reachable s \<longrightarrow> Qcount s = int (length (CopyQueue s))) \<and>
   (Qcount s = int (length (CopyQueue s)) \<longrightarrow>
      Qcount (fst (snd (initProgram k (s, c)))) =
      int (length (CopyQueue (fst (snd (initProgram k (s, c))))))) \<and>
   (healthy c \<longrightarrow>
      CopyQueue (fst (exec (copies xs) (init_state, c))) = xs \<and>
      Qcount (fst (exec (copies xs) (init_state, c))) = int (length xs)) \<and>
   (CopyQueue s \<noteq> [] \<and> initProgram k (s, c) = (r, s', c') \<longrightarrow>
      (CopyQueue s' \<noteq> [] \<and> py_index (CopyQueue s') 0 = Inr (hd (CopyQueue s))) \<or>
      (k = CtrlV \<and> CopyQueue s' = tl (CopyQueue s)))"
proof (intro conjI impI)
  assume "reachable s"
  then show "Qcount s = int (length (CopyQueue s))" by (rule reachable_counter)
next
  assume "Qcount s = int (length (CopyQueue s))"
  then show "Qcount (fst (snd (initProgram k (s, c)))) =
      int (length (CopyQueue (fst (snd (initProgram k (s, c))))))"
    by (rule initProgram_counter)
next
  assume h: "healthy c"
  have q: "QueueMode init_state" by (simp add: init_state_def)
  from exec_copies [OF q h, of xs]
  show "CopyQueue (fst (exec (copies xs) (init_state, c))) = xs"
    by (simp add: init_state_def)
  from exec_copies [OF q h, of xs]
  show "Qcount (fst (exec (copies xs) (init_state, c))) = int (length xs)"
    by (simp add: init_state_def)
next
  assume a: "CopyQueue s \<noteq> [] \<and> initProgram k (s, c) = (r, s', c')"
  then have "(CopyQueue s' \<noteq> [] \<and> hd (CopyQueue s') = hd (CopyQueue s)) \<or>
         (k = CtrlV \<and> CopyQueue s' = tl (CopyQueue s))"
    using head_kept by blast
  then show "(CopyQueue s' \<noteq> [] \<and> py_index (CopyQueue s') 0 = Inr (hd (CopyQueue s))) \<or>
      (k = CtrlV \<and> CopyQueue s' = tl (CopyQueue s))"
    by (cases "CopyQueue s'") (auto simp: py_index_0)
qed

theorem C3_counter_in_sync_witness:
  "Qcount \<lparr>CopyQueue = [''c''], Qcount = 1, placeCount = 2, QueueMode = True\<rparr> = 1 \<and>
   Qcount (fst (snd (initProgram CtrlV (one_copied, idle_clipboard)))) = 0 \<and>
   CopyQueue (fst (exec (copies [''a'', ''b'']) (init_state, idle_clipboard))) = [''a'', ''b''] \<and>
   Qcount (fst (exec (copies [''a'', ''b'']) (init_state, idle_clipboard))) = 2 \<and>
   py_index (CopyQueue (fst (snd (initProgram CtrlRight (paused_example, idle_clipboard))))) 0 =
     Inr ''a''"
proof -
  let ?s = "\<lparr>CopyQueue = [''c''], Qcount = 1, placeCount = 2, QueueMode = True\<rparr>"
  have r: "reachable ?s"
    using reachable_exec [of "(init_state, idle_clipboard)" stale_cursor_run]
    by (simp add: reachable_init stale_cursor_run_result)
  have h: "healthy idle_clipboard" by (simp add: healthy_def idle_clipboard_def)
  have a: "Qcount one_copied = int (length (CopyQueue one_copied))"
    by (simp add: one_copied_def)
  have d: "fDequeueCopyQueue (one_copied, idle_clipboard) =
      (Inr (), one_copied\<lparr>CopyQueue := [], Qcount := Qcount one_copied - 1\<rparr>,
       idle_clipboard\<lparr>clip_fail := tl (tl (tl (tl (clip_fail idle_clipboard)))),
          clip_data := Some ''hello''\<rparr>)"
    using h by (simp add: fDequeueCopyQueue_healthy one_copied_def idle_clipboard_def)
  obtain r' s' c' where n: "initProgram CtrlRight (paused_example, idle_clipboard) = (r', s', c')"
    by (cases "initProgram CtrlRight (paused_example, idle_clipboard)") auto
  have ne: "CopyQueue paused_example \<noteq> []" by (simp add: paused_example_def)
  have hd: "hd (CopyQueue paused_example) = ''a''" by (simp add: paused_example_def)
  from C3_counter_in_sync [where s = ?s] r
  have 1: "Qcount ?s = 1" by simp
  from C3_counter_in_sync [where s = one_copied and k = CtrlV and c = idle_clipboard] a
  have 2: "Qcount (fst (snd (initProgram CtrlV (one_copied, idle_clipboard)))) = 0"
    by (simp add: d)
  from C3_counter_in_sync [where c = idle_clipboard and xs = "[''a'', ''b'']"] h
  have 3: "CopyQueue (fst (exec (copies [''a'', ''b'']) (init_state, idle_clipboard))) = [''a'', ''b''] \<and>
   Qcount (fst (exec (copies [''a'', ''b'']) (init_state, idle_clipboard))) = 2"
    by simp
  from C3_counter_in_sync [where s = paused_example and k = CtrlRight and c = idle_clipboard
      and r = r' and s' = s' and c' = c'] ne n hd
  have 4: "py_index (CopyQueue s') 0 = Inr ''a''" by simp
  from 1 2 3 4 n show ?thesis by simp
qed

text \<open>
  Claim C4 (pause gating).  While \<open>QueueMode\<close> is false the copy and the paste
  callbacks return at once: the globals are unchanged and so is the clipboard
  record, schedule included, so no clipboard call was made.  The two navigation
  callbacks never look at \<open>QueueMode\<close>: run with the flag set to any value they
  return the same result, the same clipboard and the same globals up to that
  flag.
\<close>

theorem C4_pause_gating:
  "(\<not> QueueMode s \<longrightarrow>
      fEnqueueCopyQueue (s, c) = (Inr (), s, c) \<and> fDequeueCopyQueue (s, c) = (Inr (), s, c)) \<and>
   fNextInQueue (s\<lparr>QueueMode := m\<rparr>, c) =
     (case fNextInQueue (s, c) of (r, s', c') \<Rightarrow> (r, s'\<lparr>QueueMode := m\<rparr>, c')) \<and>
   fPrevInQueue (s\<lparr>QueueMode := m\<rparr>, c) =
     (case fPrevInQueue (s, c) of (r, s', c') \<Rightarrow> (r, s'\<lparr>QueueMode := m\<rparr>, c'))"
proof (intro conjI impI)
  assume "\<not> QueueMode s"
  then show "fEnqueueCopyQueue (s, c) = (Inr (), s, c)" by (rule fEnqueueCopyQueue_paused)
next
  assume "\<not> QueueMode s"
  then show "fDequeueCopyQueue (s, c) = (Inr (), s, c)" by (rule fDequeueCopyQueue_paused)
next
  show "fNextInQueue (s\<lparr>QueueMode := m\<rparr>, c) =
     (case fNextInQueue (s, c) of (r, s', c') \<Rightarrow> (r, s'\<lparr>QueueMode := m\<rparr>, c'))"
    by (simp add: fNextInQueue_def prog_apply counter_apply split: sum.splits)
next
  show "fPrevInQueue (s\<lparr>QueueMode := m\<rparr>, c) =
     (case fPrevInQueue (s, c) of (r, s', c') \<Rightarrow> (r, s'\<lparr>QueueMode := m\<rparr>, c'))"
    by (simp add: fPrevInQueue_def prog_apply counter_apply split: sum.splits)
qed

theorem C4_pause_gating_witness:
  "fEnqueueCopyQueue (paused_example, write_fails) = (Inr (), paused_example, write_fails) \<and>
   fDequeueCopyQueue (paused_example, write_fails) = (Inr (), paused_example, write_fails) \<and>
   fNextInQueue (paused_example, idle_clipboard) =
     (Inr (), paused_example\<lparr>placeCount := 1\<rparr>,
      \<lparr>clip_data = Some ''b'', clip_fail = [], stdout_encodes = (\<lambda>t. True)\<rparr>) \<and>
   fPrevInQueue (paused_example\<lparr>placeCount := 1\<rparr>, idle_clipboard) =
     (Inr (), paused_example,
      \<lparr>clip_data = Some ''a'', clip_fail = [], stdout_encodes = (\<lambda>t. True)\<rparr>)"
proof -
  have p: "\<not> QueueMode paused_example" by (simp add: paused_example_def)
  have v: "fPrevInQueue (paused_example\<lparr>QueueMode := True, placeCount := 1\<rparr>, idle_clipboard) =
     (Inr (), paused_example\<lparr>QueueMode := True, placeCount := 0\<rparr>,
      \<lparr>clip_data = Some ''a'', clip_fail = [], stdout_encodes = (\<lambda>t. True)\<rparr>)"
    by (simp add: fPrevInQueue_def prog_apply counter_apply clip_defs py_index_def
        paused_example_def idle_clipboard_def)
  have h: "healthy idle_clipboard" by (simp add: healthy_def idle_clipboard_def)
  have n: "fNextInQueue (paused_example\<lparr>QueueMode := True\<rparr>, idle_clipboard) =
     (Inr (), paused_example\<lparr>QueueMode := True, placeCount := 1\<rparr>,
      \<lparr>clip_data = Some ''b'', clip_fail = [], stdout_encodes = (\<lambda>t. True)\<rparr>)"
    using h by (simp add: fNextInQueue_healthy paused_example_def idle_clipboard_def)
  have e: "paused_example\<lparr>QueueMode := True\<rparr>\<lparr>QueueMode := False\<rparr> = paused_example"
    by (simp add: paused_example_def)
  from C4_pause_gating [where s = paused_example and c = write_fails] p
  have 1: "fEnqueueCopyQueue (paused_example, write_fails) = (Inr (), paused_example, write_fails) \<and>
   fDequeueCopyQueue (paused_example, write_fails) = (Inr (), paused_example, write_fails)"
    by simp
  from C4_pause_gating [where s = "paused_example\<lparr>QueueMode := True\<rparr>" and c = idle_clipboard
      and m = False]
  have 2: "fNextInQueue (paused_example, idle_clipboard) =
     (Inr (), paused_example\<lparr>placeCount := 1\<rparr>,
      \<lparr>clip_data = Some ''b'', clip_fail = [], stdout_encodes = (\<lambda>t. True)\<rparr>)"
    by (simp add: n e) (simp add: paused_example_def)
  from C4_pause_gating [where s = "paused_example\<lparr>QueueMode := True, placeCount := 1\<rparr>"
      and c = idle_clipboard and m = False]
  have "fPrevInQueue (paused_example\<lparr>placeCount := 1\<rparr>, idle_clipboard) =
     (Inr (), paused_example,
      \<lparr>clip_data = Some ''a'', clip_fail = [], stdout_encodes = (\<lambda>t. True)\<rparr>)"
    by (simp add: v) (simp add: paused_example_def)
  with 1 2 show ?thesis by simp
qed



text \<open>
  Claim C6 (scenario B).  From the queue \<open>[''a'', ''b'', ''c'']\<close> with the cursor
  at \<open>0\<close>, on a clipboard that does not fail: the first move forward sets the
  cursor to \<open>1\<close> and leaves \<open>''b''\<close> on the clipboard, the second sets it to
  \<open>2\<close> and leaves \<open>''c''\<close>, and the third changes neither the globals nor the
  clipboard record (no clipboard call is made).
\<close>

theorem C6_scenario_B:
  "healthy c \<Longrightarrow>
     (case fNextInQueue (scenario_B m, c) of (r1, s1, c1) \<Rightarrow>
        r1 = Inr () \<and> s1 = (scenario_B m)\<lparr>placeCount := 1\<rparr> \<and> clip_data c1 = Some ''b'' \<and>
        (case fNextInQueue (s1, c1) of (r2, s2, c2) \<Rightarrow>
           r2 = Inr () \<and> s2 = (scenario_B m)\<lparr>placeCount := 2\<rparr> \<and> clip_data c2 = Some ''c'' \<and>
           fNextInQueue (s2, c2) = (Inr (), s2, c2)))"
  by (simp add: scenario_B_def fNextInQueue_healthy fNextInQueue_idle healthy_def no_failure_tl)

theorem C6_scenario_B_witness:
  "fNextInQueue (scenario_B True, idle_clipboard) =
     (Inr (), (scenario_B True)\<lparr>placeCount := 1\<rparr>, \<lparr>clip_data = Some ''b'', clip_fail = [], stdout_encodes = (\<lambda>t. True)\<rparr>) \<and>
   fNextInQueue ((scenario_B True)\<lparr>placeCount := 1\<rparr>, \<lparr>clip_data = Some ''b'', clip_fail = [], stdout_encodes = (\<lambda>t. True)\<rparr>) =
     (Inr (), (scenario_B True)\<lparr>placeCount := 2\<rparr>, \<lparr>clip_data = Some ''c'', clip_fail = [], stdout_encodes = (\<lambda>t. True)\<rparr>) \<and>
   fNextInQueue ((scenario_B True)\<lparr>placeCount := 2\<rparr>, \<lparr>clip_data = Some ''c'', clip_fail = [], stdout_encodes = (\<lambda>t. True)\<rparr>) =
     (Inr (), (scenario_B True)\<lparr>placeCount := 2\<rparr>, \<lparr>clip_data = Some ''c'', clip_fail = [], stdout_encodes = (\<lambda>t. True)\<rparr>)"
proof -
  have h: "healthy idle_clipboard" by (simp add: healthy_def idle_clipboard_def)
  obtain r1 s1 c1 where 1: "fNextInQueue (scenario_B True, idle_clipboard) = (r1, s1, c1)"
    by (cases "fNextInQueue (scenario_B True, idle_clipboard)") auto
  obtain r2 s2 c2 where 2: "fNextInQueue (s1, c1) = (r2, s2, c2)"
    by (cases "fNextInQueue (s1, c1)") auto
  have c1: "c1 = \<lparr>clip_data = Some ''b'', clip_fail = [], stdout_encodes = (\<lambda>t. True)\<rparr>"
    using 1 h by (simp add: fNextInQueue_healthy scenario_B_def idle_clipboard_def)
  from C6_scenario_B [OF h, of True] 1 2
  have steps: "r1 = Inr () \<and> s1 = (scenario_B True)\<lparr>placeCount := 1\<rparr> \<and>
      r2 = Inr () \<and> s2 = (scenario_B True)\<lparr>placeCount := 2\<rparr> \<and>
      fNextInQueue (s2, c2) = (Inr (), s2, c2)"
    by auto
  have c2: "c2 = \<lparr>clip_data = Some ''c'', clip_fail = [], stdout_encodes = (\<lambda>t. True)\<rparr>"
    using 2 steps c1 by (simp add: fNextInQueue_healthy scenario_B_def healthy_def)
  from 1 2 steps c1 c2 show ?thesis by auto
qed




text \<open>
  Claim C8 (frame of navigation).  For every state and every clipboard, failing
  or not, the two navigation callbacks leave \<open>CopyQueue\<close>, \<open>Qcount\<close> and
  \<open>QueueMode\<close> as they were; and in scenario D (one text, cursor \<open>0\<close>) the
  backward move changes neither the globals nor the clipboard record.
\<close>

theorem C8_navigation_frame:
  "CopyQueue (fst (snd (fNextInQueue (s, c)))) = CopyQueue s \<and>
   Qcount (fst (snd (fNextInQueue (s, c)))) = Qcount s \<and>
   QueueMode (fst (snd (fNextInQueue (s, c)))) = QueueMode s \<and>
   CopyQueue (fst (snd (fPrevInQueue (s, c)))) = CopyQueue s \<and>
   Qcount (fst (snd (fPrevInQueue (s, c)))) = Qcount s \<and>
   QueueMode (fst (snd (fPrevInQueue (s, c)))) = QueueMode s \<and>
   fPrevInQueue (scenario_D m, c) = (Inr (), scenario_D m, c)"
  by (simp add: fNextInQueue_state fPrevInQueue_state fPrevInQueue_idle scenario_D_def)

text \<open>
  Claim C9 (the dequeue never adjusts the cursor).  Whatever the dequeue does,
  \<open>placeCount\<close> has the same value afterwards; in particular with two texts
  and the cursor on the second, the paste removes the first text and the cursor
  is still \<open>1\<close>, now behind the end of the list.
\<close>

theorem C9_dequeue_keeps_cursor:
  "placeCount (fst (snd (fDequeueCopyQueue (s, c)))) = placeCount s \<and>
   fDequeueCopyQueue
     (\<lparr>CopyQueue = [''a'', ''b''], Qcount = 2, placeCount = 1, QueueMode = True\<rparr>, idle_clipboard) =
     (Inr (), \<lparr>CopyQueue = [''b''], Qcount = 1, placeCount = 1, QueueMode = True\<rparr>,
      \<lparr>clip_data = Some ''a'', clip_fail = [], stdout_encodes = (\<lambda>t. True)\<rparr>)"
proof
  obtain r s' c' where run: "fDequeueCopyQueue (s, c) = (r, s', c')"
    by (cases "fDequeueCopyQueue (s, c)") auto
  from fDequeueCopyQueue_state [OF run]
  show "placeCount (fst (snd (fDequeueCopyQueue (s, c)))) = placeCount s"
    by (auto simp: run)
next
  show "fDequeueCopyQueue
     (\<lparr>CopyQueue = [''a'', ''b''], Qcount = 2, placeCount = 1, QueueMode = True\<rparr>, idle_clipboard) =
     (Inr (), \<lparr>CopyQueue = [''b''], Qcount = 1, placeCount = 1, QueueMode = True\<rparr>,
      \<lparr>clip_data = Some ''a'', clip_fail = [], stdout_encodes = (\<lambda>t. True)\<rparr>)"
    by (simp add: fDequeueCopyQueue_healthy healthy_def idle_clipboard_def)
qed

text \<open>
  Claim C10 (the dequeue mutates only after the write).  If the dequeue raises
  on a clipboard call (or on an index), the globals are exactly what they were.
  If it changes the globals at all, then no clipboard call has failed, the head
  of the queue is on the clipboard, and the change is the removal of the head
  together with the decrement of the counter.
\<close>

theorem C10_dequeue_after_write:
  assumes "fDequeueCopyQueue (s, c) = (r, s', c')"
  shows "(r = Inl ClipboardError \<or> r = Inl IndexError \<longrightarrow> s' = s) \<and>
         (s' \<noteq> s \<longrightarrow>
            r \<noteq> Inl ClipboardError \<and> clip_data c' = Some (hd (CopyQueue s)) \<and>
            s' = s\<lparr>CopyQueue := tl (CopyQueue s), Qcount := Qcount s - 1\<rparr>)"
  using fDequeueCopyQueue_state [OF assms] by auto

theorem C10_dequeue_after_write_witness:
  "fDequeueCopyQueue (one_copied, write_fails) =
     (Inl ClipboardError, one_copied,
      \<lparr>clip_data = None, clip_fail = [], stdout_encodes = (\<lambda>t. True)\<rparr>)"
proof -
  obtain r s' c' where run: "fDequeueCopyQueue (one_copied, write_fails) = (r, s', c')"
    by (cases "fDequeueCopyQueue (one_copied, write_fails)") auto
  have out: "r = Inl ClipboardError \<and>
      c' = \<lparr>clip_data = None, clip_fail = [], stdout_encodes = (\<lambda>t. True)\<rparr>"
    using run
    by (simp add: fDequeueCopyQueue_def prog_apply py_index_simps clip_defs
        one_copied_def write_fails_def)
  from C10_dequeue_after_write [OF run] out have "s' = one_copied" by simp
  with run out show ?thesis by simp
qed

end
